theory Spec2Isabelle
  imports Main
begin

section \<open>Notebook actions (core/actions/notebook.ts)\<close>

subsection \<open>JSON values and JavaScript objects\<close>

text \<open>
  A notebook file is parsed JSON. An object is an association list in property order;
  a number is kept as its literal, which this code never inspects.
\<close>

datatype json =
    JNull
  | JBool bool
  | JNumber string
  | JString string
  | JArray "json list"
  | JObject "(string \<times> json) list"

type_synonym js_object = "(string \<times> json) list"

text \<open>
  What a JavaScript statement can throw here: the \<^verbatim>\<open>Error\<close> that
  \<^verbatim>\<open>stripNotebookOutputs\<close> raises itself, with its message, and the runtime's
  \<^verbatim>\<open>TypeError\<close> (the \<^verbatim>\<open>in\<close> operator applied to a primitive,
  \<^verbatim>\<open>forEach\<close> called on something that is not an array).
\<close>

datatype js_error = Error string | TypeError

text \<open>\<^verbatim>\<open>key in obj\<close> for an object read from JSON.\<close>

definition has_key :: "string \<Rightarrow> js_object \<Rightarrow> bool" where
  "has_key k obj = (k \<in> set (map fst obj))"

text \<open>\<^verbatim>\<open>obj[key]\<close>: the property's value, \<^verbatim>\<open>undefined\<close> as \<open>None\<close>.\<close>

definition get_key :: "string \<Rightarrow> js_object \<Rightarrow> json option" where
  "get_key k obj = map_of obj k"

text \<open>
  \<^verbatim>\<open>obj[key] = v\<close>: an existing property keeps its place in the property order,
  a new one is appended.
\<close>

fun set_key :: "string \<Rightarrow> json \<Rightarrow> js_object \<Rightarrow> js_object" where
  "set_key k v [] = [(k, v)]"
| "set_key k v (p # ps) = (if fst p = k then (k, v) # ps else p # set_key k v ps)"

subsection \<open>stripNotebookOutputs\<close>

text \<open>
  The body of the \<^verbatim>\<open>forEach\<close> callback:
  \<^verbatim>\<open>if ("outputs" in cell) { cell.outputs = []; cells[index] = cell; }\<close>.
  An array has no property \<^verbatim>\<open>outputs\<close>; on \<^verbatim>\<open>null\<close> or a primitive the
  \<^verbatim>\<open>in\<close> operator throws.
\<close>

fun strip_cell :: "json \<Rightarrow> js_error + json" where
  "strip_cell (JObject cell) =
     (if has_key ''outputs'' cell
      then Inr (JObject (set_key ''outputs'' (JArray []) cell))
      else Inr (JObject cell))"
| "strip_cell (JArray xs) = Inr (JArray xs)"
| "strip_cell _ = Inl TypeError"

text \<open>The \<^verbatim>\<open>forEach\<close> loop over the cells; the first throw ends it.\<close>

fun forEach_cells :: "json list \<Rightarrow> js_error + json list" where
  "forEach_cells [] = Inr []"
| "forEach_cells (c # cs) =
     (case strip_cell c of
        Inl e \<Rightarrow> Inl e
      | Inr c' \<Rightarrow>
          (case forEach_cells cs of
             Inl e \<Rightarrow> Inl e
           | Inr cs' \<Rightarrow> Inr (c' # cs')))"

definition stripNotebookOutputs :: "js_object \<Rightarrow> string \<Rightarrow> js_error + js_object" where
  "stripNotebookOutputs notebookAsJson path =
     (if \<not> has_key ''cells'' notebookAsJson
      then Inl (Error (''Notebook at '' @ path @ '' is invalid: cells field not present''))
      else
        (case get_key ''cells'' notebookAsJson of
           Some (JArray cells) \<Rightarrow>
             (case forEach_cells cells of
                Inl e \<Rightarrow> Inl e
              | Inr cells' \<Rightarrow> Inr (set_key ''cells'' (JArray cells') notebookAsJson))
         | _ \<Rightarrow> Inl TypeError))"

subsection \<open>The Notebook constructor\<close>

text \<open>
  The protos: \<^verbatim>\<open>dataform.Target\<close>, the verified
  \<^verbatim>\<open>dataform.ActionConfig.NotebookConfig\<close> (a string field that was not given is
  the empty string, so \<^verbatim>\<open>!config.name\<close> is \<open>cfg_name config = []\<close>; the fields the
  constructor does not read stay in the record's extension) and \<^verbatim>\<open>dataform.Notebook\<close>.
\<close>

record Target =
  database :: string
  schema :: string
  name :: string

record 'r NotebookConfig =
  cfg_name :: string
  cfg_filename :: string
  cfg_tags :: "string list"
  cfg_dependOnDependencyAssertions :: bool
  cfg_dependencyTargets :: "'r list"
  cfg_disabled :: bool

record Notebook =
  target :: Target
  canonicalTarget :: Target
  tags :: "string list"
  dependencyTargets :: "Target list"
  fileName :: string
  disabled :: bool
  notebookContents :: string

record 'pc Session =
  projectConfig :: 'pc
  canonicalProjectConfig :: 'pc

text \<open>
  The functions the constructor takes from other modules (\<^verbatim>\<open>df/common/protos\<close>, \<^verbatim>\<open>df/core/path\<close>,
  \<^verbatim>\<open>df/core/utils\<close>, the inherited \<^verbatim>\<open>applySessionToTarget\<close>) and the built-in
  \<^verbatim>\<open>JSON.stringify\<close> are parameters. Those that may record a compilation error or
  touch the builder do so on a state \<open>'s\<close> that is passed through them.
\<close>

record ('u, 'r, 'pc, 's) helpers =
  verifyObjectMatchesProto :: "'u \<Rightarrow> js_error + 'r NotebookConfig"
  basename :: "string \<Rightarrow> string"
  actionConfigToCompiledGraphTarget :: "'r NotebookConfig \<Rightarrow> Target"
  resolveActionsConfigFilename :: "string \<Rightarrow> string option \<Rightarrow> string"
  applySessionToTarget :: "Target \<Rightarrow> 'pc \<Rightarrow> string option \<Rightarrow> bool \<Rightarrow> 's \<Rightarrow> Target \<times> 's"
  configTargetToCompiledGraphTarget :: "'r \<Rightarrow> Target"
  checkAssertionsForDependency :: "bool \<Rightarrow> Target \<Rightarrow> 's \<Rightarrow> Target option \<times> 's"
  nativeRequire :: "string \<Rightarrow> js_error + js_object"
  JSON_stringify :: "js_object \<Rightarrow> string"

text \<open>
  \<^verbatim>\<open>Notebook.dependencies\<close>: each resolvable goes through
  \<^verbatim>\<open>checkAssertionsForDependency(this, resolvable)\<close>, and what it returns is pushed
  when it is truthy. The flag is \<^verbatim>\<open>this.dependOnDependencyAssertions\<close>.
\<close>

fun dependencies ::
  "('u, 'r, 'pc, 's, 'x) helpers_scheme \<Rightarrow> bool \<Rightarrow> Target list \<Rightarrow> Target list \<times> 's
     \<Rightarrow> Target list \<times> 's" where
  "dependencies h flag [] (deps, st) = (deps, st)"
| "dependencies h flag (resolvable # rest) (deps, st) =
     (case checkAssertionsForDependency h flag resolvable st of
        (Some dependencyTarget, st') \<Rightarrow> dependencies h flag rest (deps @ [dependencyTarget], st')
      | (None, st') \<Rightarrow> dependencies h flag rest (deps, st'))"

text \<open>
  The constructor's first statement after \<^verbatim>\<open>verifyConfig\<close>:
  \<^verbatim>\<open>if (!config.name) { config.name = Path.basename(config.filename); }\<close>.
\<close>

definition default_name ::
  "('u, 'r, 'pc, 's, 'x) helpers_scheme \<Rightarrow> 'r NotebookConfig \<Rightarrow> 'r NotebookConfig" where
  "default_name h config =
     (if cfg_name config = [] then config\<lparr>cfg_name := basename h (cfg_filename config)\<rparr>
      else config)"

text \<open>The rest of the constructor, statement by statement.\<close>

definition construct ::
  "('u, 'r, 'pc, 's, 'x) helpers_scheme \<Rightarrow> 'pc Session \<Rightarrow> 'r NotebookConfig \<Rightarrow> string option
     \<Rightarrow> 's \<Rightarrow> js_error + Notebook \<times> 's" where
  "construct h session config0 configPath st0 =
     (let config1 = default_name h config0;
          tgt = actionConfigToCompiledGraphTarget h config1;
          config = config1\<lparr>cfg_filename :=
                     resolveActionsConfigFilename h (cfg_filename config1) configPath\<rparr>;
          (t, st1) = applySessionToTarget h tgt (projectConfig session)
                       (Some (cfg_filename config)) True st0;
          (ct, st2) = applySessionToTarget h tgt (canonicalProjectConfig session) None False st1;
          (deps, st3) = dependencies h (cfg_dependOnDependencyAssertions config)
                          (map (configTargetToCompiledGraphTarget h) (cfg_dependencyTargets config))
                          ([], st2)
      in case nativeRequire h (cfg_filename config) of
           Inl e \<Rightarrow> Inl e
         | Inr contents \<Rightarrow>
             (case stripNotebookOutputs contents (cfg_filename config) of
                Inl e \<Rightarrow> Inl e
              | Inr stripped \<Rightarrow>
                  Inr (\<lparr>target = t, canonicalTarget = ct, tags = cfg_tags config,
                        dependencyTargets = deps, fileName = cfg_filename config,
                        disabled = cfg_disabled config,
                        notebookContents = JSON_stringify h stripped\<rparr>, st3)))"

definition Notebook_constructor ::
  "('u, 'r, 'pc, 's, 'x) helpers_scheme \<Rightarrow> 'pc Session \<Rightarrow> 'u \<Rightarrow> string option
     \<Rightarrow> 's \<Rightarrow> js_error + Notebook \<times> 's" where
  "Notebook_constructor h session unverifiedConfig configPath st =
     (case verifyObjectMatchesProto h unverifiedConfig of
        Inl e \<Rightarrow> Inl e
      | Inr config \<Rightarrow> construct h session config configPath st)"

text \<open>
  \<^verbatim>\<open>Notebook.ipynb\<close>, the public method that sets or overrides the contents:
  \<^verbatim>\<open>this.proto.notebookContents = JSON.stringify(contents)\<close>. The contents are an
  object; they do not go through \<^verbatim>\<open>stripNotebookOutputs\<close>.
\<close>

definition ipynb ::
  "('u, 'r, 'pc, 's, 'x) helpers_scheme \<Rightarrow> js_object \<Rightarrow> Notebook \<Rightarrow> Notebook" where
  "ipynb h contents nbk = nbk\<lparr>notebookContents := JSON_stringify h contents\<rparr>"

subsection \<open>What clearing the outputs of a cell means\<close>

text \<open>
  The property to be shown of every cell, stated without reference to the code: a cell
  that is an object with a property \<^verbatim>\<open>outputs\<close> keeps its properties in their order
  and every value but that of \<^verbatim>\<open>outputs\<close>, which becomes the empty array; any other
  cell is unchanged.
\<close>

definition outputs_cleared :: "json \<Rightarrow> json \<Rightarrow> bool" where
  "outputs_cleared cell cell' =
     (case cell of
        JObject props \<Rightarrow>
          (if has_key ''outputs'' props
           then (\<exists>props'. cell' = JObject props' \<and> map fst props' = map fst props
                   \<and> get_key ''outputs'' props' = Some (JArray [])
                   \<and> (\<forall>k. k \<noteq> ''outputs'' \<longrightarrow> get_key k props' = get_key k props))
           else cell' = cell)
      | _ \<Rightarrow> cell' = cell)"

subsection \<open>A sample project\<close>

text \<open>
  The notebook of the test \<^verbatim>\<open>notebook cell output is removed\<close>, a notebook without
  cells, and stand-ins for the functions of the other modules: the base name is the file
  name up to its first dot, files are looked up under \<^verbatim>\<open>definitions/\<close>, the project
  defaults fill the database and schema a target leaves empty, and
  \<^verbatim>\<open>JSON.stringify\<close> writes compact JSON (escaping the quote and the backslash only).
\<close>

fun join :: "string \<Rightarrow> string list \<Rightarrow> string" where
  "join sep [] = []"
| "join sep [x] = x"
| "join sep (x # y # ys) = x @ sep @ join sep (y # ys)"

definition quote :: "string \<Rightarrow> string" where
  "quote s =
     CHR 0x22 # concat (map (\<lambda>c. if c = CHR 0x22 \<or> c = CHR 0x5C then [CHR 0x5C, c] else [c]) s)
       @ [CHR 0x22]"

fun compact_json :: "json \<Rightarrow> string" where
  "compact_json JNull = ''null''"
| "compact_json (JBool b) = (if b then ''true'' else ''false'')"
| "compact_json (JNumber n) = n"
| "compact_json (JString s) = quote s"
| "compact_json (JArray xs) = ''['' @ join '','' (map compact_json xs) @ '']''"
| "compact_json (JObject ps) =
     ''{'' @ join '','' (map (\<lambda>p. quote (fst p) @ '':'' @ compact_json (snd p)) ps) @ ''}''"

definition test_basename :: "string \<Rightarrow> string" where
  "test_basename path =
     takeWhile (\<lambda>c. c \<noteq> CHR ''.'') (rev (takeWhile (\<lambda>c. c \<noteq> CHR ''/'') (rev path)))"

definition test_cells :: "json list" where
  "test_cells =
     [JObject [(''cell_type'', JString ''markdown''), (''source'', JArray [JString ''# Some title'']),
               (''outputs'', JArray [JString ''something''])],
      JObject [(''cell_type'', JString ''code''), (''source'', JArray [JString ''print('hi')'']),
               (''outputs'', JArray [JString ''hi''])],
      JObject [(''cell_type'', JString ''raw''), (''source'', JArray [JString ''print('hi')''])]]"

definition test_cells_stripped :: "json list" where
  "test_cells_stripped =
     [JObject [(''cell_type'', JString ''markdown''), (''source'', JArray [JString ''# Some title'']),
               (''outputs'', JArray [])],
      JObject [(''cell_type'', JString ''code''), (''source'', JArray [JString ''print('hi')'']),
               (''outputs'', JArray [])],
      JObject [(''cell_type'', JString ''raw''), (''source'', JArray [JString ''print('hi')''])]]"

definition test_files :: "string \<Rightarrow> js_error + js_object" where
  "test_files path =
     (if path = ''definitions/notebook.ipynb'' then Inr [(''cells'', JArray test_cells)]
      else if path = ''definitions/empty.ipynb'' then Inr []
      else Inl (Error (''Cannot find module '' @ path)))"

record Defaults =
  defaultDatabase :: string
  defaultSchema :: string

definition test_helpers :: "(unit NotebookConfig, unit, Defaults, unit) helpers" where
  "test_helpers =
     \<lparr>verifyObjectMatchesProto = Inr,
      basename = test_basename,
      actionConfigToCompiledGraphTarget = (\<lambda>config. \<lparr>database = [], schema = [], name = cfg_name config\<rparr>),
      resolveActionsConfigFilename = (\<lambda>filename configPath. ''definitions/'' @ filename),
      applySessionToTarget = (\<lambda>t defaults fileName validateTarget st.
         (\<lparr>database = (if database t = [] then defaultDatabase defaults else database t),
           schema = (if schema t = [] then defaultSchema defaults else schema t),
           name = name t\<rparr>, st)),
      configTargetToCompiledGraphTarget = (\<lambda>_. \<lparr>database = [], schema = [], name = []\<rparr>),
      checkAssertionsForDependency = (\<lambda>flag t st. (Some t, st)),
      nativeRequire = test_files,
      JSON_stringify = (\<lambda>obj. compact_json (JObject obj))\<rparr>"

definition test_session :: "Defaults Session" where
  "test_session =
     \<lparr>projectConfig = \<lparr>defaultDatabase = ''defaultProject'', defaultSchema = ''defaultDataset''\<rparr>,
      canonicalProjectConfig =
        \<lparr>defaultDatabase = ''defaultProject'', defaultSchema = ''defaultDataset''\<rparr>\<rparr>"

definition test_config :: "string \<Rightarrow> unit NotebookConfig" where
  "test_config filename =
     \<lparr>cfg_name = [], cfg_filename = filename, cfg_tags = [], cfg_dependOnDependencyAssertions = False,
      cfg_dependencyTargets = [], cfg_disabled = False\<rparr>"

text \<open>The notebook action that the test expects in the compiled graph.\<close>

definition test_notebook :: Notebook where
  "test_notebook =
     \<lparr>target = \<lparr>database = ''defaultProject'', schema = ''defaultDataset'', name = ''notebook''\<rparr>,
      canonicalTarget =
        \<lparr>database = ''defaultProject'', schema = ''defaultDataset'', name = ''notebook''\<rparr>,
      tags = [], dependencyTargets = [], fileName = ''definitions/notebook.ipynb'',
      disabled = False,
      notebookContents = compact_json (JObject [(''cells'', JArray test_cells_stripped)])\<rparr>"

section \<open>Trailing semicolons\<close>

text \<open>
  The check that rejects a semicolon at the end of a SQL statement, and the compilation
  of the actions that calls it, are in \<^verbatim>\<open>df/core\<close> and not under
  \<^verbatim>\<open>src/\<close>; the tests of the repository that exercise them are. The definitions of
  this section are written from section 4.1 of the spec and from those tests.
\<close>

text \<open>
  Modelled from the spec: the white space that may follow the semicolon (the check itself
  is missing); the spec speaks of "trailing whitespace/newline", here blank, tab and the
  line breaks.
\<close>

definition is_whitespace :: "char \<Rightarrow> bool" where
  "is_whitespace c =
     (c = CHR '' '' \<or> c = CHR 0x09 \<or> c = CHR 0x0A \<or> c = CHR 0x0B \<or> c = CHR 0x0C \<or> c = CHR 0x0D)"

definition trim_end :: "string \<Rightarrow> string" where
  "trim_end s = rev (dropWhile is_whitespace (rev s))"

text \<open>
  Modelled from the spec: the missing check of one text, "a trailing semicolon immediately
  before end-of-body or end-of-block text": with the trailing white space taken off, the
  last character is a semicolon.
\<close>

definition ends_with_semicolon :: "string \<Rightarrow> bool" where
  "ends_with_semicolon sql = (case rev (trim_end sql) of [] \<Rightarrow> False | c # _ \<Rightarrow> c = CHR '';'')"

text \<open>
  The SQL texts of one action, as section 4.1 names what the block extractor hands over:
  the body, which is the query of a table, a view, an incremental table, an assertion
  or an operation alike, and the statements of the \<^verbatim>\<open>pre_operations\<close> and
  \<^verbatim>\<open>post_operations\<close> blocks. The graph holds the actions and the errors.
\<close>

record SqlAction =
  body :: string
  preOperations :: "string list"
  postOperations :: "string list"

record CompiledGraph =
  actions :: "SqlAction list"
  compilationErrors :: "string list"

definition semicolon_message :: string where
  "semicolon_message = ''Semi-colons are not allowed at the end of SQL statements.''"

text \<open>
  Modelled from the spec: which texts the missing compilation checks. By section 4.1 the
  body of an action is checked, whatever the kind of the action, and so is the text of
  a block. For the body the test \<^verbatim>\<open>semi-colons at the end of SQL statements
  throws\<close> agrees: one error for the body \<^verbatim>\<open>SELECT 1;\<close> and one for the body
  \<^verbatim>\<open>SELECT 1;\<close> followed by a line break. For the blocks the test
  \<^verbatim>\<open>extract blocks\<close> does not: it compiles a file whose \<^verbatim>\<open>pre_operations\<close>
  and \<^verbatim>\<open>post_operations\<close> blocks end in a semicolon and expects no error at all.
  So the body is checked, the pre- and post-operations are not.
\<close>

definition validateBody :: "SqlAction \<Rightarrow> string list" where
  "validateBody a = (if ends_with_semicolon (body a) then [semicolon_message] else [])"

text \<open>
  Modelled from the spec: the missing compilation, for the actions and this error. The
  error is recoverable (section 7): the graph holds every action and the errors.
\<close>

definition compile_actions :: "SqlAction list \<Rightarrow> CompiledGraph" where
  "compile_actions acts =
     \<lparr>actions = acts, compilationErrors = concat (map validateBody acts)\<rparr>"

text \<open>
  The claim's reading, for comparison: every statement of an action, the body as well as
  each pre- and post-operation, and the property "a semicolon, then only white space up
  to the end".
\<close>

definition statements :: "SqlAction \<Rightarrow> string list" where
  "statements a = body a # preOperations a @ postOperations a"

definition semicolon_before_end :: "string \<Rightarrow> bool" where
  "semicolon_before_end sql =
     (\<exists>before rest. sql = before @ CHR '';'' # rest \<and> (\<forall>c\<in>set rest. is_whitespace c))"

text \<open>
  The actions of the two tests: \<^verbatim>\<open>publish("a", "SELECT 1;\n")\<close> and
  \<^verbatim>\<open>publish("b", "SELECT 1;")\<close>, and the file of \<^verbatim>\<open>extract blocks\<close>.
\<close>

definition publish_a :: SqlAction where
  "publish_a = \<lparr>body = ''SELECT 1;'' @ [CHR 0x0A], preOperations = [], postOperations = []\<rparr>"

definition publish_b :: SqlAction where
  "publish_b = \<lparr>body = ''SELECT 1;'', preOperations = [], postOperations = []\<rparr>"

definition extract_blocks :: SqlAction where
  "extract_blocks =
     \<lparr>body = [CHR 0x0A, CHR 0x0A, CHR 0x0A] @ ''/*'' @ [CHR 0x0A] @ ''A multiline comment''
               @ [CHR 0x0A] @ ''*/'' @ [CHR 0x0A, CHR 0x0A, CHR 0x0A] @ ''-- A single line comment.''
               @ [CHR 0x0A] @ ''SELECT 1'',
      preOperations = [[CHR 0x0A] @ ''  SELECT 2;'' @ [CHR 0x0A]],
      postOperations = [[CHR 0x0A] @ ''  SELECT 3;'' @ [CHR 0x0A]]\<rparr>"

section \<open>Assertions of a dependency\<close>

text \<open>
  The dependency linker (\<^verbatim>\<open>checkAssertionsForDependency\<close> of \<^verbatim>\<open>df/core/utils\<close>,
  which \<^verbatim>\<open>Notebook.dependencies\<close> calls for each resolvable, and the link phase of
  the session) is not under \<^verbatim>\<open>src/\<close>; the tests of the suite \<^verbatim>\<open>Assertions as
  dependencies\<close> are. The definitions of this section are written from section 4.4 of
  the spec and from those tests. The errors the linker reports (a missing or an ambiguous
  reference, sites that set the flag to different values) are left out; the dependency
  targets are modelled, each reference linked by its own flag.
\<close>

text \<open>
  A reference: a name, qualified or not (an empty schema or database leaves it open), and
  the flag, which is unset, true or false.
\<close>

record DependencyReference =
  ref_database :: string
  ref_schema :: string
  ref_name :: string
  includeDependentAssertions :: "bool option"

text \<open>
  A registered action: its effective target, whether it is an assertion, for a
  synthesized assertion the target of its parent, its own flag, and its references in
  the order of the file: the declared dependencies, then the inline references.
\<close>

record Action =
  act_target :: Target
  act_isAssertion :: bool
  act_parentAction :: "Target option"
  act_dependOnDependencyAssertions :: bool
  act_references :: "DependencyReference list"

text \<open>
  Modelled from the spec: the missing lookup in the registry. A reference resolves when
  exactly one registered action has its name and, where the reference gives them, its
  schema and database.
\<close>

definition refers_to :: "DependencyReference \<Rightarrow> Target \<Rightarrow> bool" where
  "refers_to r t =
     (ref_name r = name t
      \<and> (ref_schema r = [] \<or> ref_schema r = schema t)
      \<and> (ref_database r = [] \<or> ref_database r = database t))"

definition candidates :: "Action list \<Rightarrow> DependencyReference \<Rightarrow> Action list" where
  "candidates registry r = filter (\<lambda>a. refers_to r (act_target a)) registry"

text \<open>One of the action's references resolves to the action with the target \<open>t\<close>.\<close>

definition dependsOn :: "Action list \<Rightarrow> Action \<Rightarrow> Target \<Rightarrow> bool" where
  "dependsOn registry x t =
     list_ex (\<lambda>r. case candidates registry r of [b] \<Rightarrow> act_target b = t | _ \<Rightarrow> False)
       (act_references x)"

text \<open>
  Modelled from the spec: the missing index of "every assertion action whose parent is
  \<open>B\<close>", in the order of registration. In the compiled graphs of the tests a
  synthesized assertion has the parent as \<^verbatim>\<open>parentAction\<close> and among its
  dependency targets, and a hand-written assertion has no \<^verbatim>\<open>parentAction\<close>; the
  tests of the suite expect the hand-written \<^verbatim>\<open>A_assert\<close>, which selects from
  \<^verbatim>\<open>A\<close>, among the assertions of \<^verbatim>\<open>A\<close>. So the assertions of a target are
  the assertion actions that have it as parent or depend on it.
\<close>

definition assertionsOf :: "Action list \<Rightarrow> Target \<Rightarrow> Target list" where
  "assertionsOf registry t =
     map act_target
       (filter (\<lambda>x. act_isAssertion x \<and> (act_parentAction x = Some t \<or> dependsOn registry x t))
          registry)"

text \<open>
  Modelled from the spec: the missing insertion into the dependency targets,
  "deduplicated against dependencies already present".
\<close>

definition add_dependency :: "Target list \<Rightarrow> Target \<Rightarrow> Target list" where
  "add_dependency deps t = (if t \<in> set deps then deps else deps @ [t])"

text \<open>
  Modelled from the spec: the flag a reference ends with in the missing
  \<^verbatim>\<open>checkAssertionsForDependency\<close>. A reference that gives none inherits the action's
  \<^verbatim>\<open>dependOnDependencyAssertions\<close>. One that sets it keeps its value, also when it
  is false and the action's flag is true: the tests \<^verbatim>\<open>When
  dependOnDependencyAssertions=true and includeDependentAssertions=false, the assertions
  related to dependency should not be added to dependencyTargets\<close> expect the
  dependency alone.
\<close>

definition effective_flag :: "Action \<Rightarrow> DependencyReference \<Rightarrow> bool" where
  "effective_flag a r =
     (case includeDependentAssertions r of
        Some b \<Rightarrow> b
      | None \<Rightarrow> act_dependOnDependencyAssertions a)"

text \<open>
  Modelled from the spec: the missing link step for one reference. The resolved target
  is added, then the assertions of that target when the flag asks for them; an
  unresolved reference adds nothing.
\<close>

definition link_reference ::
  "Action list \<Rightarrow> Action \<Rightarrow> Target list \<Rightarrow> DependencyReference \<Rightarrow> Target list" where
  "link_reference registry a deps r =
     (case candidates registry r of
        [b] \<Rightarrow>
          (let deps' = add_dependency deps (act_target b)
           in if effective_flag a r
              then foldl add_dependency deps' (assertionsOf registry (act_target b))
              else deps')
      | _ \<Rightarrow> deps)"

text \<open>
  Modelled from the spec: the missing link phase for one action, over its references in
  their order.
\<close>

definition link_dependencies :: "Action list \<Rightarrow> Action \<Rightarrow> Target list" where
  "link_dependencies registry a = foldl (link_reference registry a) [] (act_references a)"


text \<open>
  The project of the suite \<^verbatim>\<open>Assertions as dependencies\<close>: the tables \<^verbatim>\<open>A\<close> and
  \<^verbatim>\<open>C\<close>, each with a row condition, which gives the synthesized assertions
  \<^verbatim>\<open>defaultDataset_A_assertions_rowConditions\<close> and
  \<^verbatim>\<open>defaultDataset_C_assertions_rowConditions\<close>, and the hand-written assertion
  \<^verbatim>\<open>A_assert\<close>, which selects from \<^verbatim>\<open>ref("A")\<close>.
\<close>

definition in_defaultDataset :: "string \<Rightarrow> Target" where
  "in_defaultDataset n = \<lparr>database = [], schema = ''defaultDataset'', name = n\<rparr>"

definition reference :: "string \<Rightarrow> bool option \<Rightarrow> DependencyReference" where
  "reference n flag =
     \<lparr>ref_database = [], ref_schema = [], ref_name = n, includeDependentAssertions = flag\<rparr>"

definition table_action :: "string \<Rightarrow> Action" where
  "table_action n =
     \<lparr>act_target = in_defaultDataset n, act_isAssertion = False, act_parentAction = None,
      act_dependOnDependencyAssertions = False, act_references = []\<rparr>"

definition rowConditions_of :: "string \<Rightarrow> Action" where
  "rowConditions_of n =
     \<lparr>act_target = in_defaultDataset (''defaultDataset_'' @ n @ ''_assertions_rowConditions''),
      act_isAssertion = True,
      act_parentAction = Some (in_defaultDataset n),
      act_dependOnDependencyAssertions = False,
      act_references =
        [\<lparr>ref_database = [], ref_schema = ''defaultDataset'', ref_name = n,
          includeDependentAssertions = None\<rparr>]\<rparr>"

definition action_A_assert :: Action where
  "action_A_assert =
     \<lparr>act_target = in_defaultDataset ''A_assert'', act_isAssertion = True,
      act_parentAction = None, act_dependOnDependencyAssertions = False,
      act_references = [reference ''A'' None]\<rparr>"

text \<open>
  \<^verbatim>\<open>B\<close> as four of the tests write it: with its own flag and the dependency
  \<^verbatim>\<open>A\<close>; with its own flag and the dependency \<^verbatim>\<open>A\<close> set to false; with its own
  flag, the dependency \<^verbatim>\<open>A\<close> and an inline reference to \<^verbatim>\<open>C\<close> set to false;
  with the dependency \<^verbatim>\<open>A_assert\<close> and an inline reference to \<^verbatim>\<open>A\<close> set to
  true.
\<close>

definition action_B :: "bool \<Rightarrow> DependencyReference list \<Rightarrow> Action" where
  "action_B flag refs =
     \<lparr>act_target = in_defaultDataset ''B'', act_isAssertion = False, act_parentAction = None,
      act_dependOnDependencyAssertions = flag, act_references = refs\<rparr>"

definition action_B_flag :: Action where
  "action_B_flag = action_B True [reference ''A'' None]"

definition action_B_flag_reference_false :: Action where
  "action_B_flag_reference_false = action_B True [reference ''A'' (Some False)]"

definition action_B_flag_C_false :: Action where
  "action_B_flag_C_false = action_B True [reference ''A'' None, reference ''C'' (Some False)]"

definition action_B_listed :: Action where
  "action_B_listed = action_B False [reference ''A_assert'' None, reference ''A'' (Some True)]"

definition registry_with :: "Action \<Rightarrow> Action list" where
  "registry_with b =
     [table_action ''A'', rowConditions_of ''A'', action_A_assert,
      table_action ''C'', rowConditions_of ''C'', b]"

section \<open>Properties of notebook actions\<close>

subsection \<open>Objects\<close>

lemma set_key_keys: "has_key k obj \<Longrightarrow> map fst (set_key k v obj) = map fst obj"
  by (induction obj) (auto simp: has_key_def)

lemma get_key_set_key_same: "get_key k (set_key k v obj) = Some v"
  by (induction obj) (auto simp: get_key_def)

lemma get_key_set_key_other: "k' \<noteq> k \<Longrightarrow> get_key k' (set_key k v obj) = get_key k' obj"
  by (induction obj) (auto simp: get_key_def)

lemma strip_cell_cleared: "strip_cell c = Inr c' \<Longrightarrow> outputs_cleared c c'"
  by (cases c)
     (auto simp: outputs_cleared_def set_key_keys get_key_set_key_same get_key_set_key_other
           split: if_splits)

lemma forEach_cells_cleared:
  "forEach_cells cs = Inr cs' \<Longrightarrow> list_all2 outputs_cleared cs cs'"
  by (induction cs arbitrary: cs') (auto split: sum.splits dest: strip_cell_cleared)

lemma forEach_cells_objects:
  "\<forall>c\<in>set cs. \<exists>props. c = JObject props \<Longrightarrow> \<exists>cs'. forEach_cells cs = Inr cs'"
  by (induction cs) (auto split: sum.splits if_splits)

lemma stripNotebookOutputs_no_cells:
  "\<not> has_key ''cells'' nb \<Longrightarrow>
   stripNotebookOutputs nb path =
     Inl (Error (''Notebook at '' @ path @ '' is invalid: cells field not present''))"
  by (simp add: stripNotebookOutputs_def)

lemma stripNotebookOutputs_result:
  assumes "stripNotebookOutputs nb path = Inr nb'"
  shows "\<exists>cells cells'. get_key ''cells'' nb = Some (JArray cells)
           \<and> get_key ''cells'' nb' = Some (JArray cells')
           \<and> map fst nb' = map fst nb
           \<and> (\<forall>k. k \<noteq> ''cells'' \<longrightarrow> get_key k nb' = get_key k nb)
           \<and> list_all2 outputs_cleared cells cells'"
  using assms
  by (auto simp: stripNotebookOutputs_def set_key_keys get_key_set_key_same get_key_set_key_other
           split: if_splits option.splits json.splits sum.splits dest: forEach_cells_cleared)

lemma stripNotebookOutputs_objects:
  assumes "get_key ''cells'' nb = Some (JArray cells)" "\<forall>c\<in>set cells. \<exists>props. c = JObject props"
  shows "\<exists>nb'. stripNotebookOutputs nb path = Inr nb'"
proof -
  from assms(1) have "has_key ''cells'' nb"
    by (auto simp: get_key_def has_key_def dest: map_of_SomeD intro: rev_image_eqI)
  moreover from assms(2) obtain cs' where "forEach_cells cells = Inr cs'"
    using forEach_cells_objects by blast
  ultimately show ?thesis using assms(1) by (simp add: stripNotebookOutputs_def)
qed

lemma default_name_fields [simp]:
  "cfg_filename (default_name h config) = cfg_filename config"
  "cfg_tags (default_name h config) = cfg_tags config"
  "cfg_dependOnDependencyAssertions (default_name h config) = cfg_dependOnDependencyAssertions config"
  "cfg_dependencyTargets (default_name h config) = cfg_dependencyTargets config"
  "cfg_disabled (default_name h config) = cfg_disabled config"
  by (simp_all add: default_name_def)

lemma construct_fileName:
  "construct h session config configPath st = Inr (nbk, st') \<Longrightarrow>
   fileName nbk = resolveActionsConfigFilename h (cfg_filename config) configPath"
  by (auto simp: construct_def Let_def split: prod.splits sum.splits if_splits)

subsection \<open>Stripped notebook contents\<close>

text \<open>
  C9, amended. The contents the constructor stores for a notebook action are the JSON
  of the file \<^verbatim>\<open>config.filename\<close>, as
  \<^verbatim>\<open>JSON.stringify\<close> writes it, in which every cell that has an
  \<^verbatim>\<open>outputs\<close> property has the empty array there, the cell's other properties and
  their order are as in the file, a cell without \<^verbatim>\<open>outputs\<close> is unchanged, and so is
  every top-level property other than \<^verbatim>\<open>cells\<close>. A notebook without a top-level
  \<^verbatim>\<open>cells\<close> property makes the constructor throw an error whose message names the
  file. A notebook whose cells are all objects does construct. Contents set through
  \<^verbatim>\<open>ipynb\<close> are stored as \<^verbatim>\<open>JSON.stringify\<close> writes them, whatever they hold.
\<close>

theorem notebook_contents_outputs_stripped:
  fixes h :: "('u, 'r, 'pc, 's, 'x) helpers_scheme"
  defines "file config configPath \<equiv> resolveActionsConfigFilename h (cfg_filename config) configPath"
  shows
  "(\<forall>contents. nativeRequire h (file config configPath) = Inr contents \<and> \<not> has_key ''cells'' contents \<longrightarrow>
      construct h session config configPath st =
        Inl (Error (''Notebook at '' @ file config configPath @ '' is invalid: cells field not present'')))
   \<and> (\<forall>contents cells. nativeRequire h (file config configPath) = Inr contents
         \<and> get_key ''cells'' contents = Some (JArray cells)
         \<and> (\<forall>c\<in>set cells. \<exists>props. c = JObject props) \<longrightarrow>
         (\<exists>nbk st'. construct h session config configPath st = Inr (nbk, st')))
   \<and> (\<forall>nbk st'. construct h session config configPath st = Inr (nbk, st') \<longrightarrow>
         (\<exists>contents stripped cells cells'.
            nativeRequire h (file config configPath) = Inr contents
          \<and> notebookContents nbk = JSON_stringify h stripped
          \<and> get_key ''cells'' contents = Some (JArray cells)
          \<and> get_key ''cells'' stripped = Some (JArray cells')
          \<and> map fst stripped = map fst contents
          \<and> (\<forall>k. k \<noteq> ''cells'' \<longrightarrow> get_key k stripped = get_key k contents)
          \<and> list_all2 outputs_cleared cells cells'))
   \<and> (\<forall>contents nbk. notebookContents (ipynb h contents nbk) = JSON_stringify h contents)"
proof (intro conjI allI impI)
  fix contents
  assume "nativeRequire h (file config configPath) = Inr contents \<and> \<not> has_key ''cells'' contents"
  then show "construct h session config configPath st =
        Inl (Error (''Notebook at '' @ file config configPath @ '' is invalid: cells field not present''))"
    by (simp add: construct_def Let_def file_def stripNotebookOutputs_no_cells split: prod.splits)
next
  fix contents cells
  assume a: "nativeRequire h (file config configPath) = Inr contents
         \<and> get_key ''cells'' contents = Some (JArray cells)
         \<and> (\<forall>c\<in>set cells. \<exists>props. c = JObject props)"
  then obtain nb' where "stripNotebookOutputs contents (file config configPath) = Inr nb'"
    using stripNotebookOutputs_objects by blast
  with a show "\<exists>nbk st'. construct h session config configPath st = Inr (nbk, st')"
    by (simp add: construct_def Let_def file_def split: prod.splits)
next
  fix nbk st'
  assume a: "construct h session config configPath st = Inr (nbk, st')"
  then obtain contents stripped where
    c: "nativeRequire h (file config configPath) = Inr contents"
    and s: "stripNotebookOutputs contents (file config configPath) = Inr stripped"
    and n: "notebookContents nbk = JSON_stringify h stripped"
    by (auto simp: construct_def Let_def file_def split: prod.splits sum.splits)
  from stripNotebookOutputs_result [OF s] c n
  show "\<exists>contents stripped cells cells'.
            nativeRequire h (file config configPath) = Inr contents
          \<and> notebookContents nbk = JSON_stringify h stripped
          \<and> get_key ''cells'' contents = Some (JArray cells)
          \<and> get_key ''cells'' stripped = Some (JArray cells')
          \<and> map fst stripped = map fst contents
          \<and> (\<forall>k. k \<noteq> ''cells'' \<longrightarrow> get_key k stripped = get_key k contents)
          \<and> list_all2 outputs_cleared cells cells'"
    by blast
next
  fix contents nbk
  show "notebookContents (ipynb h contents nbk) = JSON_stringify h contents"
    by (simp add: ipynb_def)
qed

lemmas test_fixture_defs =
  test_helpers_def test_session_def test_config_def test_files_def test_basename_def test_cells_def

theorem notebook_contents_outputs_stripped_witness:
  "construct test_helpers test_session (test_config ''empty.ipynb'') None () =
     Inl (Error ''Notebook at definitions/empty.ipynb is invalid: cells field not present'')
   \<and> (\<exists>nbk cells'.
         construct test_helpers test_session (test_config ''notebook.ipynb'') None () = Inr (nbk, ())
       \<and> notebookContents nbk = compact_json (JObject [(''cells'', JArray cells')])
       \<and> list_all2 outputs_cleared test_cells cells')"
proof -
  let ?e = "test_config ''empty.ipynb''" and ?n = "test_config ''notebook.ipynb''"
  note at_empty =
    notebook_contents_outputs_stripped [of test_helpers ?e None test_session "()",
      THEN conjunct1, rule_format]
  note at_notebook = notebook_contents_outputs_stripped [of test_helpers ?n None test_session "()"]
  note succeeds = at_notebook [THEN conjunct2, THEN conjunct1, rule_format]
  note result = at_notebook [THEN conjunct2, THEN conjunct2, THEN conjunct1, rule_format]
  have file_e: "resolveActionsConfigFilename test_helpers (cfg_filename ?e) None = ''definitions/empty.ipynb''"
    and file_n: "resolveActionsConfigFilename test_helpers (cfg_filename ?n) None = ''definitions/notebook.ipynb''"
    by (simp_all add: test_helpers_def test_config_def)
  have req_e: "nativeRequire test_helpers ''definitions/empty.ipynb'' = Inr []"
    and req_n: "nativeRequire test_helpers ''definitions/notebook.ipynb'' = Inr [(''cells'', JArray test_cells)]"
    by (simp_all add: test_helpers_def test_files_def)
  have "nativeRequire test_helpers (resolveActionsConfigFilename test_helpers (cfg_filename ?e) None) = Inr []
        \<and> \<not> has_key ''cells'' []"
    by (simp add: file_e req_e has_key_def)
  from at_empty [OF this] have first: "construct test_helpers test_session ?e None () =
     Inl (Error ''Notebook at definitions/empty.ipynb is invalid: cells field not present'')"
    by (simp add: file_e)
  have "nativeRequire test_helpers (resolveActionsConfigFilename test_helpers (cfg_filename ?n) None)
           = Inr [(''cells'', JArray test_cells)]
        \<and> get_key ''cells'' [(''cells'', JArray test_cells)] = Some (JArray test_cells)
        \<and> (\<forall>c\<in>set test_cells. \<exists>props. c = JObject props)"
    by (simp add: file_n req_n get_key_def) (simp add: test_cells_def)
  from succeeds [OF this] obtain nbk where
    ok: "construct test_helpers test_session ?n None () = Inr (nbk, ())"
    by auto
  from result [OF ok] obtain contents stripped cells cells' where
    r: "nativeRequire test_helpers (resolveActionsConfigFilename test_helpers (cfg_filename ?n) None)
          = Inr contents"
      "notebookContents nbk = JSON_stringify test_helpers stripped"
      "get_key ''cells'' contents = Some (JArray cells)"
      "get_key ''cells'' stripped = Some (JArray cells')"
      "map fst stripped = map fst contents"
      "list_all2 outputs_cleared cells cells'"
    by blast
  from r(1) have c: "contents = [(''cells'', JArray test_cells)]" by (simp add: file_n req_n)
  with r(3) have cs: "cells = test_cells" by (simp add: get_key_def)
  from r(5) c obtain v where "stripped = [(''cells'', v)]"
    by (cases stripped) auto
  with r(4) have "stripped = [(''cells'', JArray cells')]" by (simp add: get_key_def)
  with r(2) have "notebookContents nbk = compact_json (JObject [(''cells'', JArray cells')])"
    by (simp add: test_helpers_def)
  with ok r(6) cs have "\<exists>nbk cells'.
         construct test_helpers test_session ?n None () = Inr (nbk, ())
       \<and> notebookContents nbk = compact_json (JObject [(''cells'', JArray cells')])
       \<and> list_all2 outputs_cleared test_cells cells'"
    by blast
  with first show ?thesis ..
qed

text \<open>The sample project compiles to the notebook action the test expects.\<close>

lemma construct_test_notebook:
  "construct test_helpers test_session (test_config ''notebook.ipynb'') None () =
     Inr (test_notebook, ())"
  by (simp add: construct_def default_name_def stripNotebookOutputs_def has_key_def get_key_def
        test_fixture_defs test_notebook_def test_cells_stripped_def)

text \<open>
  The claim C9 as it is written speaks of the stored contents of every notebook action.
  A notebook action whose contents were set through \<^verbatim>\<open>ipynb\<close> stores them with
  the outputs of the cells in place, and stores contents without a \<^verbatim>\<open>cells\<close>
  property without an error.
\<close>

theorem ipynb_contents_not_stripped:
  "notebookContents (ipynb test_helpers [(''cells'', JArray test_cells)] test_notebook) =
     compact_json (JObject [(''cells'', JArray test_cells)])
   \<and> compact_json (JObject [(''cells'', JArray test_cells)]) \<noteq>
       compact_json (JObject [(''cells'', JArray test_cells_stripped)])
   \<and> \<not> list_all2 outputs_cleared test_cells test_cells
   \<and> \<not> has_key ''cells'' []
   \<and> notebookContents (ipynb test_helpers [] test_notebook) = ''{}''"
proof -
  have "notebookContents (ipynb test_helpers [(''cells'', JArray test_cells)] test_notebook) =
     compact_json (JObject [(''cells'', JArray test_cells)])"
    "notebookContents (ipynb test_helpers [] test_notebook) = ''{}''"
    by (simp_all add: ipynb_def test_helpers_def)
  moreover have "compact_json (JObject [(''cells'', JArray test_cells)]) \<noteq>
       compact_json (JObject [(''cells'', JArray test_cells_stripped)])"
    by (simp add: test_cells_def test_cells_stripped_def quote_def)
  moreover have "\<not> list_all2 outputs_cleared test_cells test_cells"
    by (simp add: test_cells_def outputs_cleared_def has_key_def get_key_def)
  ultimately show ?thesis by (simp add: has_key_def)
qed

subsection \<open>The default name\<close>

text \<open>
  C10. A notebook config without a name constructs exactly the action that the same
  config with the name \<^verbatim>\<open>Path.basename(config.filename)\<close> written out constructs:
  the derived name reaches the effective and the canonical target through the same two
  calls of \<^verbatim>\<open>applySessionToTarget\<close> as an explicit one.
\<close>

theorem notebook_name_defaults_to_basename:
  fixes h :: "('u, 'r, 'pc, 's, 'x) helpers_scheme"
  assumes "cfg_name config = []"
  defines "named \<equiv> config\<lparr>cfg_name := basename h (cfg_filename config)\<rparr>"
  shows "construct h session config configPath st = construct h session named configPath st
     \<and> (\<forall>nbk st'. construct h session config configPath st = Inr (nbk, st') \<longrightarrow>
          (\<exists>st1 st2.
             applySessionToTarget h (actionConfigToCompiledGraphTarget h named) (projectConfig session)
                 (Some (resolveActionsConfigFilename h (cfg_filename config) configPath)) True st = (target nbk, st1)
           \<and> applySessionToTarget h (actionConfigToCompiledGraphTarget h named)
                 (canonicalProjectConfig session) None False st1 = (canonicalTarget nbk, st2)))"
proof -
  have d: "default_name h config = named" "default_name h named = named"
    using assms(1) by (simp_all add: default_name_def named_def)
  have nf: "cfg_filename named = cfg_filename config"
    by (simp add: named_def)
  have "construct h session config configPath st = construct h session named configPath st"
    by (simp add: construct_def d)
  moreover have "\<exists>st1 st2.
             applySessionToTarget h (actionConfigToCompiledGraphTarget h named) (projectConfig session)
                 (Some (resolveActionsConfigFilename h (cfg_filename config) configPath)) True st = (target nbk, st1)
           \<and> applySessionToTarget h (actionConfigToCompiledGraphTarget h named)
                 (canonicalProjectConfig session) None False st1 = (canonicalTarget nbk, st2)"
    if "construct h session config configPath st = Inr (nbk, st')" for nbk st'
    using that by (auto simp: construct_def d(1) nf Let_def split: prod.splits sum.splits)
  ultimately show ?thesis by blast
qed

theorem notebook_name_defaults_to_basename_witness:
  "cfg_name (test_config ''notebook.ipynb'') = []
   \<and> (\<exists>nbk. construct test_helpers test_session (test_config ''notebook.ipynb'') None () = Inr (nbk, ())
        \<and> construct test_helpers test_session
             ((test_config ''notebook.ipynb'')\<lparr>cfg_name := ''notebook''\<rparr>) None () = Inr (nbk, ())
        \<and> target nbk = \<lparr>database = ''defaultProject'', schema = ''defaultDataset'', name = ''notebook''\<rparr>
        \<and> canonicalTarget nbk =
            \<lparr>database = ''defaultProject'', schema = ''defaultDataset'', name = ''notebook''\<rparr>)"
proof -
  let ?n = "test_config ''notebook.ipynb''"
  have n: "cfg_name ?n = []" by (simp add: test_config_def)
  have b: "basename test_helpers (cfg_filename ?n) = ''notebook''"
    by (simp add: test_fixture_defs)
  have "\<exists>nbk. construct test_helpers test_session ?n None () = Inr (nbk, ())"
    by (simp add: construct_def default_name_def stripNotebookOutputs_def has_key_def get_key_def
                  test_fixture_defs)
  then obtain nbk where ok: "construct test_helpers test_session ?n None () = Inr (nbk, ())" ..
  note eq = notebook_name_defaults_to_basename [OF n, of test_helpers test_session None "()"]
  from eq ok b have same: "construct test_helpers test_session (?n\<lparr>cfg_name := ''notebook''\<rparr>) None ()
      = Inr (nbk, ())"
    by simp
  from eq ok obtain st1 st2 where
    "applySessionToTarget test_helpers
         (actionConfigToCompiledGraphTarget test_helpers (?n\<lparr>cfg_name := basename test_helpers (cfg_filename ?n)\<rparr>))
         (projectConfig test_session)
         (Some (resolveActionsConfigFilename test_helpers (cfg_filename ?n) None)) True () = (target nbk, st1)"
    "applySessionToTarget test_helpers
         (actionConfigToCompiledGraphTarget test_helpers (?n\<lparr>cfg_name := basename test_helpers (cfg_filename ?n)\<rparr>))
         (canonicalProjectConfig test_session) None False st1 = (canonicalTarget nbk, st2)"
    by blast
  then have "target nbk = \<lparr>database = ''defaultProject'', schema = ''defaultDataset'', name = ''notebook''\<rparr>"
    "canonicalTarget nbk = \<lparr>database = ''defaultProject'', schema = ''defaultDataset'', name = ''notebook''\<rparr>"
    by (simp_all add: test_fixture_defs)
  with n ok same show ?thesis by blast
qed

section \<open>Properties of the semicolon check\<close>

lemma trim_end_append_whitespace:
  "\<forall>c\<in>set rest. is_whitespace c \<Longrightarrow> trim_end (s @ rest) = trim_end s"
  by (simp add: trim_end_def dropWhile_append)

lemma ends_with_semicolon_iff: "ends_with_semicolon sql = semicolon_before_end sql"
proof
  assume e: "ends_with_semicolon sql"
  let ?ws = "takeWhile is_whitespace (rev sql)"
  from e obtain r where r: "dropWhile is_whitespace (rev sql) = CHR '';'' # r"
    by (auto simp: ends_with_semicolon_def trim_end_def split: list.splits)
  have "rev sql = ?ws @ CHR '';'' # r"
    using r takeWhile_dropWhile_id [of is_whitespace "rev sql"] by simp
  then have "sql = rev r @ CHR '';'' # rev ?ws"
    by (metis rev_append rev.simps(2) rev_rev_ident append.assoc append_Cons append_Nil)
  moreover have "\<forall>c\<in>set (rev ?ws). is_whitespace c"
    by (auto dest: set_takeWhileD)
  ultimately show "semicolon_before_end sql"
    unfolding semicolon_before_end_def by blast
next
  assume "semicolon_before_end sql"
  then obtain before rest where
    s: "sql = before @ CHR '';'' # rest" and w: "\<forall>c\<in>set rest. is_whitespace c"
    unfolding semicolon_before_end_def by blast
  have "trim_end sql = trim_end (before @ [CHR '';''])"
    using trim_end_append_whitespace [OF w, of "before @ [CHR '';'']"] s by simp
  also have "\<dots> = before @ [CHR '';'']"
    by (simp add: trim_end_def is_whitespace_def)
  finally show "ends_with_semicolon sql"
    by (simp add: ends_with_semicolon_def)
qed

lemma concat_validateBody:
  "concat (map validateBody acts) =
     replicate (length (filter (\<lambda>t. ends_with_semicolon (body t)) acts)) semicolon_message"
  by (induction acts) (simp_all add: validateBody_def)

lemma ends_with_semicolon_tests:
  "ends_with_semicolon (body publish_a)" "ends_with_semicolon (body publish_b)"
  "\<not> ends_with_semicolon (body extract_blocks)"
  "map ends_with_semicolon (preOperations extract_blocks) = [True]"
  "map ends_with_semicolon (postOperations extract_blocks) = [True]"
  by (simp_all add: ends_with_semicolon_def trim_end_def is_whitespace_def
        publish_a_def publish_b_def extract_blocks_def)

text \<open>
  The claim C8 as it is written counts every statement that ends in a semicolon, those
  of the \<^verbatim>\<open>pre_operations\<close> and \<^verbatim>\<open>post_operations\<close> blocks too. The file of
  the test \<^verbatim>\<open>extract blocks\<close> has two such statements, each followed by a line break
  and the end of its block, and compiles without an error.
\<close>

theorem semicolon_in_pre_operations_not_flagged:
  "length (filter semicolon_before_end (statements extract_blocks)) = 2
   \<and> compilationErrors (compile_actions [extract_blocks]) = []"
proof -
  note t = ends_with_semicolon_tests(3-5) [unfolded ends_with_semicolon_iff]
  have "filter semicolon_before_end (statements extract_blocks)
          = preOperations extract_blocks @ postOperations extract_blocks"
    using t by (simp add: statements_def extract_blocks_def)
  moreover have "compilationErrors (compile_actions [extract_blocks]) = []"
    using ends_with_semicolon_tests(3) by (simp add: compile_actions_def validateBody_def)
  ultimately show ?thesis by (simp add: extract_blocks_def)
qed

text \<open>
  C8, amended. Compilation returns the graph with all its actions, and its errors are the
  semicolon message once for each action whose body has a semicolon followed by nothing
  but white space up to its end; the statements of the \<^verbatim>\<open>pre_operations\<close> and
  \<^verbatim>\<open>post_operations\<close> blocks have no part in it.
\<close>

theorem trailing_semicolon_of_body_flagged:
  "actions (compile_actions acts) = acts
   \<and> compilationErrors (compile_actions acts) =
       replicate (length (filter (\<lambda>t. semicolon_before_end (body t)) acts)) semicolon_message
   \<and> compilationErrors (compile_actions (map (\<lambda>t. t\<lparr>preOperations := pre t, postOperations := post t\<rparr>) acts)) =
       compilationErrors (compile_actions acts)"
proof -
  have "concat (map validateBody (map (\<lambda>t. t\<lparr>preOperations := pre t, postOperations := post t\<rparr>) acts))
          = concat (map validateBody acts)"
    by (induction acts) (simp_all add: validateBody_def)
  then show ?thesis
    by (simp add: compile_actions_def concat_validateBody ends_with_semicolon_iff)
qed

theorem trailing_semicolon_of_body_flagged_witness:
  "semicolon_before_end (body publish_a) \<and> semicolon_before_end (body publish_b)
   \<and> actions (compile_actions [publish_a, publish_b]) = [publish_a, publish_b]
   \<and> compilationErrors (compile_actions [publish_a, publish_b]) = [semicolon_message, semicolon_message]"
proof -
  have s: "semicolon_before_end (body publish_a)" "semicolon_before_end (body publish_b)"
    using ends_with_semicolon_tests(1,2) by (simp_all add: ends_with_semicolon_iff)
  with trailing_semicolon_of_body_flagged [of "[publish_a, publish_b]"]
  show ?thesis by simp
qed

section \<open>Properties of the dependency linker\<close>











lemmas linker_test_defs =
  registry_with_def table_action_def rowConditions_of_def action_A_assert_def action_B_def
  action_B_flag_def action_B_flag_reference_false_def action_B_flag_C_false_def
  action_B_listed_def reference_def in_defaultDataset_def


text \<open>
  The dependency targets four tests of the suite expect for \<^verbatim>\<open>B\<close>, by name: with
  the action's flag; with the flag and the reference set to false; with the flag and a
  second reference, to \<^verbatim>\<open>C\<close>, set to false; with \<^verbatim>\<open>A_assert\<close> listed before the
  reference that brings it in again.
\<close>

lemma link_dependencies_tests:
  "map name (link_dependencies (registry_with action_B_flag) action_B_flag) =
     [''A'', ''defaultDataset_A_assertions_rowConditions'', ''A_assert'']"
  "map name (link_dependencies (registry_with action_B_flag_reference_false)
              action_B_flag_reference_false) = [''A'']"
  "map name (link_dependencies (registry_with action_B_flag_C_false) action_B_flag_C_false) =
     [''A'', ''defaultDataset_A_assertions_rowConditions'', ''A_assert'', ''C'']"
  "map name (link_dependencies (registry_with action_B_listed) action_B_listed) =
     [''A_assert'', ''A'', ''defaultDataset_A_assertions_rowConditions'']"
  by (simp_all add: link_dependencies_def link_reference_def effective_flag_def
        add_dependency_def assertionsOf_def dependsOn_def candidates_def refers_to_def
        linker_test_defs)




end
